theory Spec2Isabelle
  imports Main "HOL-Library.Word" "HOL-Library.Code_Target_Nat"
begin

unbundle bit_operations_syntax

section \<open>Python values\<close>

text \<open>
  A Python \<open>str\<close> is a sequence of Unicode code points and a \<open>bytes\<close> object a sequence
  of octets. An Isabelle \<open>char\<close> has eight bits only, so a \<open>str\<close> is modelled as the
  list of its code points; \<open>str ''abc''\<close> is the \<open>str\<close> literal with the given ASCII text.
\<close>

type_synonym pystr = "nat list"

type_synonym bytes = "8 word list"

definition str :: "string \<Rightarrow> pystr" where
  "str s = map of_char s"

text \<open>The line feed, written \<open>\n\<close> in the source's literals.\<close>

definition NL :: pystr where
  "NL = [10]"

text \<open>\<open>str(n)\<close> and \<open>f"{n}"\<close> for a non-negative integer: its decimal digits.\<close>

fun str_nat :: "nat \<Rightarrow> pystr" where
  "str_nat n = (if n < 10 then [48 + n] else str_nat (n div 10) @ [48 + n mod 10])"

declare str_nat.simps [simp del]

text \<open>\<open>str(i)\<close> for an integer: a minus sign before the digits of a negative one.\<close>

definition str_int :: "int \<Rightarrow> pystr" where
  "str_int i = (if i < 0 then 45 # str_nat (nat (- i)) else str_nat (nat i))"

text \<open>\<open>s.startswith(p)\<close>.\<close>

definition startswith :: "pystr \<Rightarrow> pystr \<Rightarrow> bool" where
  "startswith s p = (take (length p) s = p)"

text \<open>\<open>sep.join(parts)\<close>.\<close>

fun join :: "pystr \<Rightarrow> pystr list \<Rightarrow> pystr" where
  "join sep [] = []"
| "join sep [p] = p"
| "join sep (p # q # ps) = p @ sep @ join sep (q # ps)"

text \<open>
  \<open>str.isspace\<close> on one code point: the characters \<open>str.strip()\<close> removes (the
  Unicode white space of CPython's \<open>_PyUnicode_IsWhitespace\<close>).
\<close>

definition isspace :: "nat \<Rightarrow> bool" where
  "isspace c = (c \<in> {9, 10, 11, 12, 13, 28, 29, 30, 31, 32, 133, 160, 5760,
     8192, 8193, 8194, 8195, 8196, 8197, 8198, 8199, 8200, 8201, 8202,
     8232, 8233, 8239, 8287, 12288})"

definition lstrip :: "pystr \<Rightarrow> pystr" where
  "lstrip s = dropWhile isspace s"

definition rstrip :: "pystr \<Rightarrow> pystr" where
  "rstrip s = rev (dropWhile isspace (rev s))"

definition strip :: "pystr \<Rightarrow> pystr" where
  "strip s = rstrip (lstrip s)"

text \<open>\<open>s.split(sep)\<close> for a separator of one character: the pieces between its occurrences.\<close>

fun split_on :: "nat \<Rightarrow> pystr \<Rightarrow> pystr list" where
  "split_on sep [] = [[]]"
| "split_on sep (c # cs) =
     (if c = sep then [] # split_on sep cs
      else (case split_on sep cs of
              [] \<Rightarrow> [[c]]
            | p # ps \<Rightarrow> (c # p) # ps))"

section \<open>Exceptions\<close>

text \<open>
  The exceptions the handlers of the source tell apart. Each of them is an instance of
  Python's \<open>Exception\<close>: FastAPI's \<open>HTTPException\<close> (through Starlette's) derives from it,
  \<open>jwt.ExpiredSignatureError\<close> derives from \<open>jwt.PyJWTError\<close>, which derives from it, and
  so does \<open>UnicodeDecodeError\<close>. So a clause \<open>except Exception\<close> handles every value of
  this type. \<open>PyJWTError\<close> stands for an error of PyJWT that is not the expiry error,
  \<open>Error\<close> for any other exception; both carry their message.
\<close>

datatype exn =
    HTTPException nat pystr
  | ExpiredSignatureError
  | PyJWTError pystr
  | UnicodeDecodeError
  | Error pystr

text \<open>
  \<open>str(e)\<close>. Starlette renders an \<open>HTTPException\<close> as \<open>"{status_code}: {detail}"\<close>.
\<close>

fun str_exn :: "exn \<Rightarrow> pystr" where
  "str_exn (HTTPException status_code detail) = str_nat status_code @ str '': '' @ detail"
| "str_exn ExpiredSignatureError = str ''Signature has expired''"
| "str_exn (PyJWTError msg) = msg"
| "str_exn UnicodeDecodeError = str ''codec can't decode bytes''"
| "str_exn (Error msg) = msg"

text \<open>
  The status the framework answers with when a handler ends with an exception: the
  status of an \<open>HTTPException\<close>, and 500 for any other exception.
\<close>

fun status_of_exn :: "exn \<Rightarrow> nat" where
  "status_of_exn (HTTPException status_code detail) = status_code"
| "status_of_exn e = 500"

text \<open>
  \<open>try: body / except Exception as e: handler(e)\<close>, with the outcome of the body as a
  value: \<open>Inl e\<close> when it raised \<open>e\<close>.
\<close>

definition try_except :: "exn + 'a \<Rightarrow> (exn \<Rightarrow> exn + 'a) \<Rightarrow> exn + 'a" where
  "try_except body handler = (case body of Inl e \<Rightarrow> handler e | Inr v \<Rightarrow> Inr v)"

section \<open>Text codecs\<close>

text \<open>
  \<open>bytes.decode('utf-8')\<close>, strict: a byte below 0x80 is its own code point; a lead byte
  0xC2..0xDF, 0xE0..0xEF or 0xF0..0xF4 takes one, two or three continuation bytes
  (0x80..0xBF); overlong forms, the surrogates 0xD800..0xDFFF and values above 0x10FFFF
  are refused. \<open>utf8_first b bs\<close> decodes the character that starts with \<open>b\<close> and gives
  its code point with the number of continuation bytes it took from \<open>bs\<close>.
\<close>

definition is_cont :: "8 word \<Rightarrow> bool" where
  "is_cont b = (128 \<le> unat b \<and> unat b \<le> 191)"

definition cont_bits :: "8 word \<Rightarrow> nat" where
  "cont_bits b = unat b mod 64"

definition utf8_first :: "8 word \<Rightarrow> bytes \<Rightarrow> (nat \<times> nat) option" where
  "utf8_first b0 bs =
     (let n0 = unat b0 in
      if n0 < 128 then Some (n0, 0)
      else if 194 \<le> n0 \<and> n0 \<le> 223 then
        (case bs of
           b1 # _ \<Rightarrow>
             if is_cont b1 then Some ((n0 - 192) * 64 + cont_bits b1, 1) else None
         | _ \<Rightarrow> None)
      else if 224 \<le> n0 \<and> n0 \<le> 239 then
        (case bs of
           b1 # b2 # _ \<Rightarrow>
             (let cp = (n0 - 224) * 4096 + cont_bits b1 * 64 + cont_bits b2 in
              if is_cont b1 \<and> is_cont b2 \<and> 2048 \<le> cp \<and> (cp < 55296 \<or> 57343 < cp)
              then Some (cp, 2) else None)
         | _ \<Rightarrow> None)
      else if 240 \<le> n0 \<and> n0 \<le> 244 then
        (case bs of
           b1 # b2 # b3 # _ \<Rightarrow>
             (let cp = (n0 - 240) * 262144 + cont_bits b1 * 4096 + cont_bits b2 * 64 + cont_bits b3 in
              if is_cont b1 \<and> is_cont b2 \<and> is_cont b3 \<and> 65536 \<le> cp \<and> cp \<le> 1114111
              then Some (cp, 3) else None)
         | _ \<Rightarrow> None)
      else None)"

fun utf8_decode :: "bytes \<Rightarrow> pystr option" where
  "utf8_decode [] = Some []"
| "utf8_decode (b # bs) =
     (case utf8_first b bs of
        None \<Rightarrow> None
      | Some (cp, k) \<Rightarrow> map_option ((#) cp) (utf8_decode (drop k bs)))"

text \<open>\<open>file_content.decode('utf-8')\<close>: it raises \<open>UnicodeDecodeError\<close> on invalid input.\<close>

definition decode_utf8 :: "bytes \<Rightarrow> exn + pystr" where
  "decode_utf8 bs = (case utf8_decode bs of None \<Rightarrow> Inl UnicodeDecodeError | Some s \<Rightarrow> Inr s)"

text \<open>
  \<open>file_content.decode('latin-1', errors='ignore')\<close>: every byte is the code point of
  the same value, so nothing is ever ignored and nothing is raised.
\<close>

definition decode_latin1_ignore :: "bytes \<Rightarrow> pystr" where
  "decode_latin1_ignore bs = map unat bs"

section \<open>The libraries the program calls\<close>

text \<open>
  The parsers and models are third-party code; the program only calls them. Each is a
  parameter, and each call may raise:
  \<^item> \<open>filetype_guess\<close>: \<open>filetype.guess(file_content)\<close>, the MIME type of the kind it
    sniffs, or \<open>None\<close>;
  \<^item> \<open>PdfReader_pages\<close>: \<open>PyPDF2.PdfReader(io.BytesIO(file_content)).pages\<close>, each page
    given by what its \<open>extract_text()\<close> returns or raises;
  \<^item> \<open>Document\<close>: \<open>docx.Document(io.BytesIO(file_content))\<close>, the texts of its paragraphs
    and of the cells of the rows of its tables;
  \<^item> \<open>vision_generate\<close>: \<open>Image.open\<close> on the bytes, then
    \<open>vision_model.generate_content([prompt, image])\<close> and the \<open>text\<close> of the response;
  \<^item> \<open>model_generate\<close>: \<open>model.generate_content(prompt, generation_config=...)\<close> and the
    \<open>text\<close> of the response.
  The Unicode case mapping of the Python runtime is a parameter as well:
  \<^item> \<open>unicode_lower\<close>: \<open>s.lower()\<close> for a \<open>str\<close> that holds a code point outside ASCII
    (the mapping of the Unicode character database, final sigma included); it raises
    nothing.
\<close>

record docx =
  paragraphs :: "pystr list"
  tables :: "pystr list list list"

record libs =
  filetype_guess :: "bytes \<Rightarrow> exn + pystr option"
  PdfReader_pages :: "bytes \<Rightarrow> exn + (exn + pystr) list"
  Document :: "bytes \<Rightarrow> exn + docx"
  vision_generate :: "pystr \<Rightarrow> bytes \<Rightarrow> exn + pystr"
  model_generate :: "pystr \<Rightarrow> exn + pystr"
  unicode_lower :: "pystr \<Rightarrow> pystr"

section \<open>Content extraction (dependencies.py, extract_text_from_file)\<close>

text \<open>
  The loop over \<open>enumerate(pdf_reader.pages)\<close>: page \<open>i\<close> (from 0) adds the block
  \<open>f"\n--- Page {i + 1} ---\n{page_text}\n"\<close> when \<open>page_text and page_text.strip()\<close>.
  An \<open>extract_text()\<close> that raises ends the loop with that exception.
\<close>

fun pdf_loop :: "nat \<Rightarrow> (exn + pystr) list \<Rightarrow> pystr list \<Rightarrow> exn + pystr list" where
  "pdf_loop i [] text_parts = Inr text_parts"
| "pdf_loop i (page # pages) text_parts =
     (case page of
        Inl e \<Rightarrow> Inl e
      | Inr page_text \<Rightarrow>
          if page_text \<noteq> [] \<and> strip page_text \<noteq> []
          then pdf_loop (i + 1) pages
                 (text_parts @ [NL @ str ''--- Page '' @ str_nat (i + 1) @ str '' ---'' @ NL @ page_text @ NL])
          else pdf_loop (i + 1) pages text_parts)"

text \<open>The body of the \<open>try\<close> of the PDF branch.\<close>

definition read_pdf :: "libs \<Rightarrow> bytes \<Rightarrow> exn + pystr" where
  "read_pdf L file_content =
     (case PdfReader_pages L file_content of
        Inl e \<Rightarrow> Inl e
      | Inr pages \<Rightarrow>
          (case pdf_loop 0 pages [] of
             Inl e \<Rightarrow> Inl e
           | Inr text_parts \<Rightarrow> Inr (strip (concat text_parts))))"

text \<open>
  The body of the \<open>try\<close> of the Word branch: the paragraphs whose text is not blank,
  then the cells whose text is not blank, table by table and row by row.
\<close>

definition read_docx :: "libs \<Rightarrow> bytes \<Rightarrow> exn + pystr" where
  "read_docx L file_content =
     (case Document L file_content of
        Inl e \<Rightarrow> Inl e
      | Inr doc \<Rightarrow>
          (let full_text = filter (\<lambda>t. strip t \<noteq> []) (paragraphs doc)
                 @ filter (\<lambda>t. strip t \<noteq> []) (concat (concat (tables doc)))
           in Inr (strip (join NL full_text))))"

text \<open>The body of the \<open>try\<close> of the image branch.\<close>

definition read_image :: "libs \<Rightarrow> bytes \<Rightarrow> pystr \<Rightarrow> exn + pystr" where
  "read_image L file_content filename =
     (case vision_generate L
             (str ''Extract all text from this image. If no text is present, briefly describe the image content.'')
             file_content of
        Inl e \<Rightarrow> Inl e
      | Inr response_text \<Rightarrow>
          Inr (str ''[Image content from '' @ filename @ str '']'' @ NL @ response_text))"

text \<open>
  The text branch: \<open>decode('utf-8')\<close>; on \<open>UnicodeDecodeError\<close> the Latin-1 decoding;
  on any other exception the bracketed message.
\<close>

definition read_text :: "bytes \<Rightarrow> exn + pystr" where
  "read_text file_content =
     (case decode_utf8 file_content of
        Inr s \<Rightarrow> Inr s
      | Inl UnicodeDecodeError \<Rightarrow> Inr (decode_latin1_ignore file_content)
      | Inl e \<Rightarrow> Inr (str ''[Error reading text file: '' @ str_exn e @ str '']''))"

text \<open>
  \<open>s.lower()\<close>: on a \<open>str\<close> of ASCII characters only, the letters A to Z become a to z
  and nothing else changes; on any other \<open>str\<close> it is the runtime's Unicode mapping.
\<close>

definition lower_cp :: "nat \<Rightarrow> nat" where
  "lower_cp c = (if 65 \<le> c \<and> c \<le> 90 then c + 32 else c)"

definition lower :: "libs \<Rightarrow> pystr \<Rightarrow> pystr" where
  "lower L s = (if list_all (\<lambda>c. c < 128) s then map lower_cp s else unicode_lower L s)"

text \<open>\<open>filename.lower().split('.')[-1] if '.' in filename else ''\<close>.\<close>

definition file_extension_of :: "libs \<Rightarrow> pystr \<Rightarrow> pystr" where
  "file_extension_of L filename =
     (if 46 \<in> set filename then last (split_on 46 (lower L filename)) else [])"

definition text_extensions :: "pystr list" where
  "text_extensions = map str [''txt'', ''md'', ''csv'', ''json'', ''xml'', ''html'', ''htm'', ''rtf'']"

definition image_extensions :: "pystr list" where
  "image_extensions = map str [''jpg'', ''jpeg'', ''png'', ''gif'', ''bmp'', ''webp'', ''tiff'']"

definition extract_text_from_file :: "libs \<Rightarrow> bytes \<Rightarrow> pystr \<Rightarrow> exn + pystr" where
  "extract_text_from_file L file_content filename =
     try_except
       (case filetype_guess L file_content of
          Inl e \<Rightarrow> Inl e
        | Inr kind \<Rightarrow>
            (let file_type = (case kind of Some mime \<Rightarrow> mime | None \<Rightarrow> str ''application/octet-stream'');
                 file_extension = file_extension_of L filename
             in
             if file_type = str ''application/pdf'' \<or> file_extension = str ''pdf'' then
               try_except (read_pdf L file_content)
                 (\<lambda>e. Inr (str ''[Error reading PDF: '' @ str_exn e @ str '']''))
             else if file_type = str ''application/vnd.openxmlformats-officedocument.wordprocessingml.document''
                     \<or> file_extension = str ''docx'' then
               try_except (read_docx L file_content)
                 (\<lambda>e. Inr (str ''[Error reading Word document: '' @ str_exn e @ str '']''))
             else if file_extension = str ''doc'' then
               Inr (str ''[Legacy Word document (.doc) detected. Please convert to .docx format for better text extraction. Filename: ''
                    @ filename @ str '']'')
             else if startswith file_type (str ''text/'') \<or> file_extension \<in> set text_extensions then
               read_text file_content
             else if startswith file_type (str ''image/'') \<or> file_extension \<in> set image_extensions then
               try_except (read_image L file_content filename)
                 (\<lambda>e. Inr (str ''[Image content from '' @ filename @ str '' - Vision processing error: ''
                           @ str_exn e @ str '']''))
             else
               Inr (str ''[Unsupported file type: '' @ file_type @ str '' (extension: .''
                    @ file_extension @ str '').]'')))
       (\<lambda>e. Inr (str ''[Error extracting text from '' @ filename @ str '': '' @ str_exn e @ str '']''))"

section \<open>Password hashing (dependencies.py)\<close>

text \<open>
  \<open>password.encode()\<close> is the UTF-8 encoding. A surrogate (0xD800..0xDFFF) cannot be
  encoded: Python raises \<open>UnicodeEncodeError\<close>. A value above 0x10FFFF is no code point
  of a \<open>str\<close> at all and is refused as well.
\<close>

definition utf8_encode_cp :: "nat \<Rightarrow> bytes option" where
  "utf8_encode_cp cp =
     (if cp < 128 then Some [of_nat cp]
      else if cp < 2048 then Some [of_nat (192 + cp div 64), of_nat (128 + cp mod 64)]
      else if 55296 \<le> cp \<and> cp \<le> 57343 then None
      else if cp < 65536 then
        Some [of_nat (224 + cp div 4096), of_nat (128 + cp div 64 mod 64), of_nat (128 + cp mod 64)]
      else if cp \<le> 1114111 then
        Some [of_nat (240 + cp div 262144), of_nat (128 + cp div 4096 mod 64),
              of_nat (128 + cp div 64 mod 64), of_nat (128 + cp mod 64)]
      else None)"

fun utf8_encode :: "pystr \<Rightarrow> bytes option" where
  "utf8_encode [] = Some []"
| "utf8_encode (cp # cps) =
     (case utf8_encode_cp cp of
        None \<Rightarrow> None
      | Some bs \<Rightarrow> map_option ((@) bs) (utf8_encode cps))"

definition encode_utf8 :: "pystr \<Rightarrow> exn + bytes" where
  "encode_utf8 s = (case utf8_encode s of None \<Rightarrow> Inl (Error (str ''UnicodeEncodeError'')) | Some bs \<Rightarrow> Inr bs)"

text \<open>
  \<open>hashlib.sha256\<close> (FIPS 180-4) on 32-bit words: the state and the digest are eight
  words.
\<close>

type_synonym sha_state =
  "32 word \<times> 32 word \<times> 32 word \<times> 32 word \<times> 32 word \<times> 32 word \<times> 32 word \<times> 32 word"

definition rotr :: "nat \<Rightarrow> 32 word \<Rightarrow> 32 word" where
  "rotr n x = word_rotr n x"

definition Ch :: "32 word \<Rightarrow> 32 word \<Rightarrow> 32 word \<Rightarrow> 32 word" where
  "Ch x y z = (x AND y) XOR (NOT x AND z)"

definition Maj :: "32 word \<Rightarrow> 32 word \<Rightarrow> 32 word \<Rightarrow> 32 word" where
  "Maj x y z = (x AND y) XOR (x AND z) XOR (y AND z)"

definition Sigma0 :: "32 word \<Rightarrow> 32 word" where
  "Sigma0 x = rotr 2 x XOR rotr 13 x XOR rotr 22 x"

definition Sigma1 :: "32 word \<Rightarrow> 32 word" where
  "Sigma1 x = rotr 6 x XOR rotr 11 x XOR rotr 25 x"

definition sigma0 :: "32 word \<Rightarrow> 32 word" where
  "sigma0 x = rotr 7 x XOR rotr 18 x XOR drop_bit 3 x"

definition sigma1 :: "32 word \<Rightarrow> 32 word" where
  "sigma1 x = rotr 17 x XOR rotr 19 x XOR drop_bit 10 x"

text \<open>
  The round constants (the first 32 bits of the fractional parts of the cube roots of
  the first 64 primes) and the initial state (the same of the square roots of the first
  8 primes), in decimal.
\<close>

definition sha256_K :: "32 word list" where
  "sha256_K =
    [1116352408, 1899447441, 3049323471, 3921009573, 961987163, 1508970993,
     2453635748, 2870763221, 3624381080, 310598401, 607225278, 1426881987,
     1925078388, 2162078206, 2614888103, 3248222580, 3835390401, 4022224774,
     264347078, 604807628, 770255983, 1249150122, 1555081692, 1996064986,
     2554220882, 2821834349, 2952996808, 3210313671, 3336571891, 3584528711,
     113926993, 338241895, 666307205, 773529912, 1294757372, 1396182291,
     1695183700, 1986661051, 2177026350, 2456956037, 2730485921, 2820302411,
     3259730800, 3345764771, 3516065817, 3600352804, 4094571909, 275423344,
     430227734, 506948616, 659060556, 883997877, 958139571, 1322822218,
     1537002063, 1747873779, 1955562222, 2024104815, 2227730452, 2361852424,
     2428436474, 2756734187, 3204031479, 3329325298]"

definition sha256_H0 :: sha_state where
  "sha256_H0 = (1779033703, 3144134277, 1013904242, 2773480762,
                1359893119, 2600822924, 528734635, 1541459225)"

text \<open>The padded message: the byte 0x80, zero bytes up to 56 modulo 64, and the length
  in bits as eight bytes, most significant first.\<close>

definition be_bytes64 :: "64 word \<Rightarrow> bytes" where
  "be_bytes64 n = map (\<lambda>i. ucast (drop_bit (8 * i) n)) (rev [0..<8])"

definition sha256_pad :: "bytes \<Rightarrow> bytes" where
  "sha256_pad msg =
     msg @ [0x80] @ replicate ((119 - length msg mod 64) mod 64) 0 @ be_bytes64 (of_nat (8 * length msg))"

text \<open>Four bytes as a 32-bit word, most significant first.\<close>

fun be_words :: "bytes \<Rightarrow> 32 word list" where
  "be_words (b0 # b1 # b2 # b3 # bs) =
     (push_bit 24 (ucast b0) OR push_bit 16 (ucast b1) OR push_bit 8 (ucast b2) OR ucast b3) # be_words bs"
| "be_words _ = []"

fun chunks :: "nat \<Rightarrow> 'a list \<Rightarrow> 'a list list" where
  "chunks n xs = (if n = 0 \<or> xs = [] then [] else take n xs # chunks n (drop n xs))"

declare chunks.simps [simp del]

text \<open>The message schedule: \<open>k\<close> more words after those of \<open>w\<close>.\<close>

fun schedule :: "nat \<Rightarrow> 32 word list \<Rightarrow> 32 word list" where
  "schedule 0 w = w"
| "schedule (Suc k) w =
     (let t = length w
      in schedule k (w @ [sigma1 (w ! (t - 2)) + w ! (t - 7) + sigma0 (w ! (t - 15)) + w ! (t - 16)]))"

definition sha256_round :: "32 word \<times> 32 word \<Rightarrow> sha_state \<Rightarrow> sha_state" where
  "sha256_round kw s =
     (case s of (a, b, c, d, e, f, g, h) \<Rightarrow>
        (let t1 = h + Sigma1 e + Ch e f g + fst kw + snd kw;
             t2 = Sigma0 a + Maj a b c
         in (t1 + t2, a, b, c, d + t1, e, f, g)))"

definition sha256_add :: "sha_state \<Rightarrow> sha_state \<Rightarrow> sha_state" where
  "sha256_add s s' =
     (case s of (a, b, c, d, e, f, g, h) \<Rightarrow>
      case s' of (a', b', c', d', e', f', g', h') \<Rightarrow>
        (a + a', b + b', c + c', d + d', e + e', f + f', g + g', h + h'))"

definition sha256_block :: "sha_state \<Rightarrow> bytes \<Rightarrow> sha_state" where
  "sha256_block s block =
     sha256_add s (fold sha256_round (zip sha256_K (schedule 48 (be_words block))) s)"

definition sha256 :: "bytes \<Rightarrow> sha_state" where
  "sha256 msg = fold (\<lambda>block s. sha256_block s block) (chunks 64 (sha256_pad msg)) sha256_H0"

text \<open>\<open>hexdigest()\<close>: the eight words as 64 lower-case hexadecimal digits.\<close>

definition hex_digit :: "nat \<Rightarrow> nat" where
  "hex_digit n = (if n < 10 then 48 + n else 87 + n)"

definition hex_word :: "32 word \<Rightarrow> pystr" where
  "hex_word w = map (\<lambda>i. hex_digit (unat (drop_bit (4 * i) w) mod 16)) (rev [0..<8])"

definition hexdigest :: "sha_state \<Rightarrow> pystr" where
  "hexdigest s =
     (case s of (a, b, c, d, e, f, g, h) \<Rightarrow>
        concat (map hex_word [a, b, c, d, e, f, g, h]))"

text \<open>\<open>hashlib.sha256(password.encode()).hexdigest()\<close>.\<close>

definition hash_password :: "pystr \<Rightarrow> exn + pystr" where
  "hash_password password =
     (case encode_utf8 password of
        Inl e \<Rightarrow> Inl e
      | Inr data \<Rightarrow> Inr (hexdigest (sha256 data)))"

text \<open>\<open>hash_password(plain_password) == hashed_password\<close>.\<close>

definition verify_password :: "pystr \<Rightarrow> pystr \<Rightarrow> exn + bool" where
  "verify_password plain_password hashed_password =
     (case hash_password plain_password of
        Inl e \<Rightarrow> Inl e
      | Inr h \<Rightarrow> Inr (h = hashed_password))"

section \<open>Session tokens (dependencies.py, routes.py)\<close>

text \<open>
  PyJWT is a library. A token is modelled by what HS256 protects: the key it was signed
  with and the payload (the claims \<open>user_id\<close> and \<open>exp\<close>, each of which may be absent);
  \<open>Malformed\<close> is any other string. Time is in whole seconds, as in the \<open>exp\<close> claim.
  \<open>jwt.decode(token, key, algorithms=[ALGORITHM])\<close> checks the signature first, then
  the expiry: a token is expired when \<open>exp <= now\<close> (PyJWT 2).
\<close>

type_synonym secret = pystr

record payload =
  p_user_id :: "int option"
  p_exp :: "int option"

datatype token = Signed secret payload | Malformed pystr

definition jwt_encode :: "payload \<Rightarrow> secret \<Rightarrow> token" where
  "jwt_encode to_encode key = Signed key to_encode"

fun jwt_decode :: "token \<Rightarrow> secret \<Rightarrow> int \<Rightarrow> exn + payload" where
  "jwt_decode (Malformed s) key now = Inl (PyJWTError (str ''Not enough segments''))"
| "jwt_decode (Signed k pl) key now =
     (if k \<noteq> key then Inl (PyJWTError (str ''Signature verification failed''))
      else (case p_exp pl of
              None \<Rightarrow> Inr pl
            | Some e \<Rightarrow> if e \<le> now then Inl ExpiredSignatureError else Inr pl))"

text \<open>
  \<open>create_access_token(data, expires_delta=None)\<close>, with \<open>data = {"user_id": ...}\<close> and
  \<open>now\<close> for \<open>datetime.utcnow()\<close>. The test \<open>if expires_delta:\<close> is Python's truth
  value: false for \<open>None\<close> and for a \<open>timedelta\<close> of zero, true for every other one.
\<close>

definition create_access_token :: "secret \<Rightarrow> int \<Rightarrow> int option \<Rightarrow> int option \<Rightarrow> token" where
  "create_access_token SECRET_KEY now data_user_id expires_delta =
     (let expire = (case expires_delta of
                      None \<Rightarrow> now + 15 * 60
                    | Some delta \<Rightarrow> if delta \<noteq> 0 then now + delta else now + 15 * 60)
      in jwt_encode \<lparr>p_user_id = data_user_id, p_exp = Some expire\<rparr> SECRET_KEY)"

definition credentials_exception :: exn where
  "credentials_exception = HTTPException 401 (str ''Could not validate credentials'')"

text \<open>
  \<open>get_current_user_id\<close>; \<open>None\<close> is the absent token (\<open>auto_error=False\<close>). The
  \<open>raise credentials_exception\<close> inside the \<open>try\<close> is no PyJWT error, so neither
  \<open>except\<close> clause handles it and it leaves the function as it is.
\<close>

definition get_current_user_id :: "secret \<Rightarrow> int \<Rightarrow> token option \<Rightarrow> exn + int" where
  "get_current_user_id SECRET_KEY now token =
     (case token of
        None \<Rightarrow> Inl (HTTPException 401 (str ''Token is missing''))
      | Some t \<Rightarrow>
          (case (case jwt_decode t SECRET_KEY now of
                   Inl e \<Rightarrow> Inl e
                 | Inr pl \<Rightarrow>
                     (case p_user_id pl of
                        None \<Rightarrow> Inl credentials_exception
                      | Some user_id \<Rightarrow> Inr user_id)) of
             Inl ExpiredSignatureError \<Rightarrow> Inl (HTTPException 401 (str ''Token has expired''))
           | Inl (PyJWTError msg) \<Rightarrow> Inl credentials_exception
           | Inl e \<Rightarrow> Inl e
           | Inr user_id \<Rightarrow> Inr user_id))"

text \<open>
  The three ways the specification names for a verification to fail, read from the
  answer of \<open>get_current_user_id\<close> (all three have status 401 and differ in the detail).
\<close>

datatype auth_failure = Unauthenticated | TokenExpired | InvalidToken

definition auth_failure_of :: "exn \<Rightarrow> auth_failure option" where
  "auth_failure_of e =
     (if e = HTTPException 401 (str ''Token is missing'') then Some Unauthenticated
      else if e = HTTPException 401 (str ''Token has expired'') then Some TokenExpired
      else if e = HTTPException 401 (str ''Could not validate credentials'') then Some InvalidToken
      else None)"

section \<open>Context assembly (routes.py, chat)\<close>

text \<open>A row of the query \<open>select("id, filename, content")\<close> on the documents table.\<close>

record doc_row =
  row_id :: int
  row_filename :: pystr
  row_content :: pystr

text \<open>A provenance entry \<open>{"id": ..., "filename": ...}\<close>.\<close>

record source_entry =
  src_id :: int
  src_filename :: pystr

text \<open>
  The loop \<open>for doc in documents_res.data\<close> of \<open>chat\<close>: it appends one rendered part to
  \<open>context_parts\<close> and one entry to \<open>context_sources\<close> per document.
\<close>

fun context_loop ::
  "doc_row list \<Rightarrow> pystr list \<Rightarrow> source_entry list \<Rightarrow> pystr list \<times> source_entry list" where
  "context_loop [] context_parts context_sources = (context_parts, context_sources)"
| "context_loop (doc # docs) context_parts context_sources =
     context_loop docs
       (context_parts @ [str ''--- Document: '' @ row_filename doc @ str '' ---'' @ NL @ row_content doc])
       (context_sources @ [\<lparr>src_id = row_id doc, src_filename = row_filename doc\<rparr>])"

text \<open>
  The block \<open>if documents_res and documents_res.data: ...\<close> of \<open>chat\<close>; \<open>None\<close> is the
  \<open>documents_res = None\<close> of a request that selects nothing. It returns \<open>context\<close> and
  \<open>context_sources\<close>, which start as \<open>""\<close> and \<open>[]\<close>.
\<close>

definition assemble_context :: "doc_row list option \<Rightarrow> pystr \<times> source_entry list" where
  "assemble_context documents_res =
     (case documents_res of
        None \<Rightarrow> ([], [])
      | Some data \<Rightarrow>
          if data = [] then ([], [])
          else (let (context_parts, context_sources) = context_loop data [] []
                in (join (NL @ NL) context_parts, context_sources)))"

text \<open>
  The specification's wording of the same: each document rendered as the header line
  \<open>--- Document: {filename} ---\<close> followed by its content, the records joined by a blank
  line, and the list of \<open>{id, filename}\<close> entries in the same order.
\<close>

definition render_document :: "doc_row \<Rightarrow> pystr" where
  "render_document d = str ''--- Document: '' @ row_filename d @ str '' ---'' @ NL @ row_content d"

definition provenance :: "doc_row \<Rightarrow> source_entry" where
  "provenance d = \<lparr>src_id = row_id d, src_filename = row_filename d\<rparr>"

definition spec_context :: "doc_row list \<Rightarrow> pystr \<times> source_entry list" where
  "spec_context docs = (join (NL @ NL) (map render_document docs), map provenance docs)"

section \<open>Response generation (dependencies.py, generate_response)\<close>




section \<open>The store (the Supabase tables)\<close>

text \<open>
  The three tables, each a list of rows in the order of insertion, and the last value of
  each table's id sequence. A query is a filter of the rows; it returns them in the
  table's order unless it asks for an order. \<open>created_at\<close> is the time of
  \<open>datetime.utcnow()\<close> at the insertion. The calls to the store are total here: what
  the transport may raise is not modelled.
\<close>

record user =
  u_id :: int
  u_email :: pystr
  u_password_hash :: pystr
  u_full_name :: pystr
  u_created_at :: int

record document =
  d_id :: int
  d_user_id :: int
  d_filename :: pystr
  d_content :: pystr
  d_file_type :: pystr
  d_created_at :: int

record chat_turn =
  t_id :: int
  t_user_id :: int
  t_message :: pystr
  t_response :: pystr
  t_context_documents :: "source_entry list"
  t_created_at :: int

record db =
  users :: "user list"
  documents :: "document list"
  chat_history :: "chat_turn list"
  users_seq :: int
  documents_seq :: int
  chat_history_seq :: int

text \<open>\<open>table.insert({...}).execute()\<close>: the new state and \<open>.data\<close>, the inserted row.\<close>

definition insert_user :: "db \<Rightarrow> pystr \<Rightarrow> pystr \<Rightarrow> pystr \<Rightarrow> int \<Rightarrow> user list \<times> db" where
  "insert_user s email password_hash full_name created_at =
     (let row = \<lparr>u_id = users_seq s + 1, u_email = email, u_password_hash = password_hash,
                 u_full_name = full_name, u_created_at = created_at\<rparr>
      in ([row], s\<lparr>users := users s @ [row], users_seq := users_seq s + 1\<rparr>))"

definition insert_document ::
  "db \<Rightarrow> int \<Rightarrow> pystr \<Rightarrow> pystr \<Rightarrow> pystr \<Rightarrow> int \<Rightarrow> document list \<times> db" where
  "insert_document s uid filename content file_type created_at =
     (let row = \<lparr>d_id = documents_seq s + 1, d_user_id = uid, d_filename = filename,
                 d_content = content, d_file_type = file_type, d_created_at = created_at\<rparr>
      in ([row], s\<lparr>documents := documents s @ [row], documents_seq := documents_seq s + 1\<rparr>))"


text \<open>
  \<open>.order("created_at", desc=True)\<close> on chat turns. The database does not say in
  which order it gives rows of equal time; here the one stored later comes first.
\<close>

definition order_created_at_desc :: "chat_turn list \<Rightarrow> chat_turn list" where
  "order_created_at_desc rows = rev (sort_key t_created_at rows)"

section \<open>The request handlers (routes.py)\<close>

text \<open>
  A handler is its \<open>try\<close> body, which gives the answer or the exception it raised, under
  the clause \<open>except Exception as e: raise HTTPException(500, detail=str(e))\<close> that
  every handler ends with. The clause handles whatever the body raised, an
  \<open>HTTPException\<close> of the body included. A handler that writes to the store returns the
  new state as well.
\<close>

definition except_Exception :: "exn + 'a \<Rightarrow> exn + 'a" where
  "except_Exception body = try_except body (\<lambda>e. Inl (HTTPException 500 (str_exn e)))"

text \<open>
  The status of the answer: that of the exception, or the handler's status of success
  (200 unless the route declares another).
\<close>

definition status_of :: "nat \<Rightarrow> exn + 'a \<Rightarrow> nat" where
  "status_of success r = (case r of Inl e \<Rightarrow> status_of_exn e | Inr v \<Rightarrow> success)"

subsection \<open>register and login\<close>

record user_create =
  uc_email :: pystr
  uc_password :: pystr
  uc_full_name :: pystr

record user_login =
  ul_email :: pystr
  ul_password :: pystr

record token_response =
  access_token :: token
  token_type :: pystr
  token_user :: user

definition register_body :: "secret \<Rightarrow> int \<Rightarrow> db \<Rightarrow> user_create \<Rightarrow> (exn + token_response) \<times> db" where
  "register_body SECRET_KEY now s u =
     (let existing_user = filter (\<lambda>row. u_email row = uc_email u) (users s) in
      if existing_user \<noteq> [] then (Inl (HTTPException 400 (str ''Email already registered'')), s)
      else
        (case hash_password (uc_password u) of
           Inl e \<Rightarrow> (Inl e, s)
         | Inr hashed_pwd \<Rightarrow>
             (case insert_user s (uc_email u) hashed_pwd (uc_full_name u) now of
                ([], s') \<Rightarrow> (Inl (HTTPException 500 (str ''Failed to create user'')), s')
              | (user_data # _, s') \<Rightarrow>
                  (Inr \<lparr>access_token = create_access_token SECRET_KEY now (Some (u_id user_data)) None,
                        token_type = str ''bearer'',
                        token_user = user_data\<rparr>, s'))))"

definition register :: "secret \<Rightarrow> int \<Rightarrow> db \<Rightarrow> user_create \<Rightarrow> (exn + token_response) \<times> db" where
  "register SECRET_KEY now s u =
     (case register_body SECRET_KEY now s u of (r, s') \<Rightarrow> (except_Exception r, s'))"

definition login_body :: "secret \<Rightarrow> int \<Rightarrow> db \<Rightarrow> user_login \<Rightarrow> exn + token_response" where
  "login_body SECRET_KEY now s form_data =
     (case filter (\<lambda>row. u_email row = ul_email form_data) (users s) of
        [] \<Rightarrow> Inl (HTTPException 401 (str ''Invalid credentials''))
      | user_data # _ \<Rightarrow>
          (case verify_password (ul_password form_data) (u_password_hash user_data) of
             Inl e \<Rightarrow> Inl e
           | Inr ok \<Rightarrow>
               if \<not> ok then Inl (HTTPException 401 (str ''Invalid credentials''))
               else Inr \<lparr>access_token = create_access_token SECRET_KEY now (Some (u_id user_data)) None,
                         token_type = str ''bearer'',
                         token_user = user_data\<rparr>))"

definition login :: "secret \<Rightarrow> int \<Rightarrow> db \<Rightarrow> user_login \<Rightarrow> exn + token_response" where
  "login SECRET_KEY now s form_data = except_Exception (login_body SECRET_KEY now s form_data)"

subsection \<open>upload and guest extraction\<close>

text \<open>
  An \<open>UploadFile\<close>: its \<open>filename\<close> and \<open>content_type\<close> (each may be \<open>None\<close>) and
  the bytes \<open>await file.read()\<close> gives.
\<close>

record upload_file_t =
  file_filename :: "pystr option"
  file_bytes :: bytes
  file_content_type :: "pystr option"

record upload_response =
  up_message :: pystr
  up_document_id :: int
  up_filename :: pystr
  up_extracted_text_length :: nat
  up_file_size :: nat
  up_text_preview :: pystr
  up_warning :: "pystr option"

text \<open>The limit \<open>10 * 1024 * 1024\<close>.\<close>

definition MAX_FILE_SIZE :: nat where
  "MAX_FILE_SIZE = 10 * 1024 * 1024"

definition upload_file_body ::
  "libs \<Rightarrow> int \<Rightarrow> db \<Rightarrow> upload_file_t \<Rightarrow> int \<Rightarrow> (exn + upload_response) \<times> db" where
  "upload_file_body L now s file current_user_id =
     (case file_filename file of
        None \<Rightarrow> (Inl (HTTPException 400 (str ''Invalid filename'')), s)
      | Some name \<Rightarrow>
          if name = [] \<or> 47 \<in> set name \<or> 92 \<in> set name
          then (Inl (HTTPException 400 (str ''Invalid filename'')), s)
          else
            (let filename = dropWhile (\<lambda>c. c \<in> {46, 47, 92}) name;
                 file_content = file_bytes file;
                 file_size = length file_content
             in
             if file_size > MAX_FILE_SIZE
             then (Inl (HTTPException 400 (str ''File size exceeds 10MB limit.'')), s)
             else if file_content = []
             then (Inl (HTTPException 400 (str ''Empty file uploaded.'')), s)
             else
               (case extract_text_from_file L file_content filename of
                  Inl e \<Rightarrow> (Inl e, s)
                | Inr extracted_text \<Rightarrow>
                    (let warning_message =
                           (if startswith extracted_text (str ''[Error'') \<or> length (strip extracted_text) < 10
                            then Some (str ''Text extraction may have had issues. Please verify.'')
                            else None)
                     in
                     case insert_document s current_user_id filename extracted_text
                            (case file_content_type file of
                               None \<Rightarrow> str ''unknown''
                             | Some ct \<Rightarrow> if ct = [] then str ''unknown'' else ct)
                            now of
                       ([], s') \<Rightarrow> (Inl (HTTPException 500 (str ''Failed to save document.'')), s')
                     | (row # _, s') \<Rightarrow>
                         (Inr \<lparr>up_message = str ''File uploaded successfully'',
                               up_document_id = d_id row,
                               up_filename = filename,
                               up_extracted_text_length = length extracted_text,
                               up_file_size = file_size,
                               up_text_preview =
                                 (if length extracted_text > 200 then take 200 extracted_text @ str ''...''
                                  else extracted_text),
                               up_warning = warning_message\<rparr>, s')))))"

definition upload_file ::
  "libs \<Rightarrow> int \<Rightarrow> db \<Rightarrow> upload_file_t \<Rightarrow> int \<Rightarrow> (exn + upload_response) \<times> db" where
  "upload_file L now s file current_user_id =
     (case upload_file_body L now s file current_user_id of (r, s') \<Rightarrow> (except_Exception r, s'))"

record guest_extract_response =
  ge_extracted_text :: pystr
  ge_filename :: pystr
  ge_file_size :: nat
  ge_extracted_length :: nat

definition guest_extract_text_body :: "libs \<Rightarrow> upload_file_t \<Rightarrow> exn + guest_extract_response" where
  "guest_extract_text_body L file =
     (let filename = (case file_filename file of
                        None \<Rightarrow> str ''uploaded_file''
                      | Some name \<Rightarrow> if name = [] then str ''uploaded_file'' else name);
          file_content = file_bytes file;
          file_size = length file_content
      in
      if file_size > MAX_FILE_SIZE
      then Inl (HTTPException 400 (str ''File size exceeds 10MB limit.''))
      else
        (case extract_text_from_file L file_content filename of
           Inl e \<Rightarrow> Inl e
         | Inr extracted_text \<Rightarrow>
             Inr \<lparr>ge_extracted_text = extracted_text,
                   ge_filename = filename,
                   ge_file_size = file_size,
                   ge_extracted_length = length extracted_text\<rparr>))"

definition guest_extract_text :: "libs \<Rightarrow> upload_file_t \<Rightarrow> exn + guest_extract_response" where
  "guest_extract_text L file = except_Exception (guest_extract_text_body L file)"

subsection \<open>Reading and deleting a document\<close>

definition get_document_content_body :: "db \<Rightarrow> int \<Rightarrow> int \<Rightarrow> exn + document" where
  "get_document_content_body s document_id current_user_id =
     (case filter (\<lambda>row. d_id row = document_id \<and> d_user_id row = current_user_id) (documents s) of
        [] \<Rightarrow> Inl (HTTPException 404 (str ''Document not found''))
      | row # _ \<Rightarrow> Inr row)"

definition get_document_content :: "db \<Rightarrow> int \<Rightarrow> int \<Rightarrow> exn + document" where
  "get_document_content s document_id current_user_id =
     except_Exception (get_document_content_body s document_id current_user_id)"

definition delete_document_body :: "db \<Rightarrow> int \<Rightarrow> int \<Rightarrow> (exn + unit) \<times> db" where
  "delete_document_body s document_id current_user_id =
     (let verify_res = filter (\<lambda>row. d_id row = document_id \<and> d_user_id row = current_user_id)
                         (documents s)
      in
      if verify_res = [] then (Inl (HTTPException 404 (str ''Document not found'')), s)
      else (Inr (),
            s\<lparr>documents :=
                 filter (\<lambda>row. \<not> (d_id row = document_id \<and> d_user_id row = current_user_id))
                   (documents s)\<rparr>))"

definition delete_document :: "db \<Rightarrow> int \<Rightarrow> int \<Rightarrow> (exn + unit) \<times> db" where
  "delete_document s document_id current_user_id =
     (case delete_document_body s document_id current_user_id of (r, s') \<Rightarrow> (except_Exception r, s'))"

subsection \<open>chat and its history\<close>

text \<open>
  \<open>selected_documents\<close> and \<open>use_all_documents\<close> are \<open>Optional\<close>: a request may carry
  \<open>null\<close> for either, which is \<open>None\<close> here.
\<close>

record chat_request =
  req_message :: pystr
  req_selected_documents :: "int list option"
  req_use_all_documents :: "bool option"






text \<open>
  \<open>get_chat_history\<close>: the caller's turns, newest first, at most 50 of them, and the
  list reversed.
\<close>

definition get_chat_history_body :: "db \<Rightarrow> int \<Rightarrow> exn + chat_turn list" where
  "get_chat_history_body s current_user_id =
     (let history_res =
            take 50 (order_created_at_desc
                       (filter (\<lambda>row. t_user_id row = current_user_id) (chat_history s)))
      in Inr (rev history_res))"

definition get_chat_history :: "db \<Rightarrow> int \<Rightarrow> exn + chat_turn list" where
  "get_chat_history s current_user_id = except_Exception (get_chat_history_body s current_user_id)"

subsection \<open>Routes behind the authentication dependency\<close>

text \<open>
  \<open>Depends(get_current_user_id)\<close>: the framework runs the dependency first and, when it
  raises, answers with that exception without entering the handler.
\<close>

definition Depends_user ::
  "secret \<Rightarrow> int \<Rightarrow> token option \<Rightarrow> (int \<Rightarrow> exn + 'a) \<Rightarrow> exn + 'a" where
  "Depends_user SECRET_KEY now token handler =
     (case get_current_user_id SECRET_KEY now token of
        Inl e \<Rightarrow> Inl e
      | Inr current_user_id \<Rightarrow> handler current_user_id)"

section \<open>The specification's vocabulary\<close>

text \<open>
  The kinds of file of the specification's design notes, and the rule the dispatch of
  \<open>extract_text_from_file\<close> follows: the sniffed type or the extension, in the order of
  the source's branches.
\<close>

datatype file_kind = PDF | ModernDoc | LegacyDoc | PlainText | Image | Unsupported

definition sniffed_type :: "pystr option \<Rightarrow> pystr" where
  "sniffed_type kind = (case kind of Some mime \<Rightarrow> mime | None \<Rightarrow> str ''application/octet-stream'')"

definition classify :: "pystr \<Rightarrow> pystr \<Rightarrow> file_kind" where
  "classify file_type file_extension =
     (if file_type = str ''application/pdf'' \<or> file_extension = str ''pdf'' then PDF
      else if file_type = str ''application/vnd.openxmlformats-officedocument.wordprocessingml.document''
              \<or> file_extension = str ''docx'' then ModernDoc
      else if file_extension = str ''doc'' then LegacyDoc
      else if startswith file_type (str ''text/'') \<or> file_extension \<in> set text_extensions then PlainText
      else if startswith file_type (str ''image/'') \<or> file_extension \<in> set image_extensions then Image
      else Unsupported)"

text \<open>The block of a page, \<open>--- Page N ---\<close> on a line of its own before the page's text.\<close>

definition page_block :: "nat \<Rightarrow> pystr \<Rightarrow> pystr" where
  "page_block n page_text = NL @ str ''--- Page '' @ str_nat n @ str '' ---'' @ NL @ page_text @ NL"

text \<open>A page has extractable text when its text is not blank.\<close>

definition has_text :: "pystr \<Rightarrow> bool" where
  "has_text page_text = (strip page_text \<noteq> [])"

text \<open>
  The caller's documents that a chat request selects: all of the caller's, or those of
  the caller's whose id is among the selected ids.
\<close>

definition selected_own :: "db \<Rightarrow> chat_request \<Rightarrow> int \<Rightarrow> document list" where
  "selected_own s req uid =
     (if req_use_all_documents req = Some True
      then filter (\<lambda>d. d_user_id d = uid) (documents s)
      else (case req_selected_documents req of
              None \<Rightarrow> []
            | Some ids \<Rightarrow> filter (\<lambda>d. d_user_id d = uid \<and> d_id d \<in> set ids) (documents s)))"

section \<open>Concrete inputs\<close>

text \<open>
  Libraries as they answer on bytes that are no PDF, no Word document and no image:
  \<open>filetype.guess\<close> knows no signature and gives \<open>None\<close>, the parsers and the vision
  model refuse the bytes, and the text model answers \<open>ok\<close>. The file names of the
  examples are ASCII, so that the Unicode case mapping is never consulted (it is given
  as the ASCII one).
\<close>

definition plain_libs :: libs where
  "plain_libs =
     \<lparr>filetype_guess = (\<lambda>_. Inr None),
      PdfReader_pages = (\<lambda>_. Inl (Error (str ''EOF marker not found''))),
      Document = (\<lambda>_. Inl (Error (str ''File is not a zip file''))),
      vision_generate = (\<lambda>_ _. Inl (Error (str ''cannot identify image file''))),
      model_generate = (\<lambda>_. Inr (str ''ok'')),
      unicode_lower = map lower_cp\<rparr>"

text \<open>
  A store with two users and one document, \<open>notes.txt\<close> with id 1, of user 1.
\<close>

definition alice :: user where
  "alice = \<lparr>u_id = 1, u_email = str ''alice@example.com'',
            u_password_hash = str ''ba7816bf8f01cfea414140de5dae2223b00361a396177a9cb410ff61f20015ad'',
            u_full_name = str ''Alice'', u_created_at = 100\<rparr>"

definition bob :: user where
  "bob = \<lparr>u_id = 2, u_email = str ''bob@example.com'',
          u_password_hash = str ''e3b0c44298fc1c149afbf4c8996fb92427ae41e4649b934ca495991b7852b855'',
          u_full_name = str ''Bob'', u_created_at = 200\<rparr>"

definition notes_txt :: document where
  "notes_txt = \<lparr>d_id = 1, d_user_id = 1, d_filename = str ''notes.txt'', d_content = str ''hello world'',
            d_file_type = str ''text/plain'', d_created_at = 300\<rparr>"

definition store1 :: db where
  "store1 = \<lparr>users = [alice, bob], documents = [notes_txt], chat_history = [],
             users_seq = 2, documents_seq = 1, chat_history_seq = 0\<rparr>"

text \<open>The caller's turns, oldest first: what the history is taken from.\<close>

definition own_turns :: "db \<Rightarrow> int \<Rightarrow> chat_turn list" where
  "own_turns s uid = sort_key t_created_at (filter (\<lambda>row. t_user_id row = uid) (chat_history s))"

text \<open>A store with three chat turns, two of user 1 (the newer one stored first).\<close>

definition turn_a :: chat_turn where
  "turn_a = \<lparr>t_id = 1, t_user_id = 1, t_message = str ''q1'', t_response = str ''a1'',
             t_context_documents = [], t_created_at = 500\<rparr>"

definition turn_b :: chat_turn where
  "turn_b = \<lparr>t_id = 3, t_user_id = 1, t_message = str ''q3'', t_response = str ''a3'',
             t_context_documents = [], t_created_at = 700\<rparr>"

definition turn_c :: chat_turn where
  "turn_c = \<lparr>t_id = 2, t_user_id = 2, t_message = str ''q2'', t_response = str ''a2'',
             t_context_documents = [], t_created_at = 600\<rparr>"

definition store2 :: db where
  "store2 = \<lparr>users = [alice, bob], documents = [notes_txt], chat_history = [turn_b, turn_c, turn_a],
             users_seq = 2, documents_seq = 1, chat_history_seq = 3\<rparr>"

text \<open>
  A PDF of three pages, the second without text: \<open>filetype.guess\<close> sniffs a PDF and the
  reader gives the three pages' texts.
\<close>

definition three_pages :: libs where
  "three_pages = plain_libs\<lparr>
     filetype_guess := (\<lambda>_. Inr (Some (str ''application/pdf''))),
     PdfReader_pages := (\<lambda>_. Inr [Inr (str ''Alpha''), Inr (str ''  ''), Inr (str ''Gamma'')])\<rparr>"






section \<open>Properties of the context assembly\<close>

lemma context_loop_eq:
  "context_loop docs parts srcs = (parts @ map render_document docs, srcs @ map provenance docs)"
  by (induction docs arbitrary: parts srcs) (simp_all add: render_document_def provenance_def)

text \<open>
  Claim C7. For every ordered collection of document records, the assembled context
  renders each document as the header line \<open>--- Document: {filename} ---\<close> followed by the
  document's whole content, consecutive documents are joined by a blank line, and the
  provenance list holds the \<open>{id, filename}\<close> entries in the order of the documents.
\<close>

theorem assemble_context_spec:
  "assemble_context (Some docs) = spec_context docs"
proof (cases docs)
  case Nil
  then show ?thesis by (simp add: assemble_context_def spec_context_def)
next
  case (Cons d ds)
  then show ?thesis
    by (simp add: assemble_context_def spec_context_def context_loop_eq del: context_loop.simps)
qed

text \<open>
  The specification's example: the documents \<open>a.txt\<close> with content \<open>X\<close> and \<open>b.txt\<close>
  with content \<open>Y\<close>.
\<close>

lemma assemble_context_example:
  "assemble_context (Some [\<lparr>row_id = 1, row_filename = str ''a.txt'', row_content = str ''X''\<rparr>,
                           \<lparr>row_id = 2, row_filename = str ''b.txt'', row_content = str ''Y''\<rparr>])
   = (str ''--- Document: a.txt ---'' @ NL @ str ''X'' @ NL @ NL @ str ''--- Document: b.txt ---'' @ NL @ str ''Y'',
      [\<lparr>src_id = 1, src_filename = str ''a.txt''\<rparr>, \<lparr>src_id = 2, src_filename = str ''b.txt''\<rparr>])"
  by (simp add: assemble_context_def str_def NL_def)

section \<open>Properties of the handlers' exception clause\<close>

lemma except_Exception_Inr: "except_Exception (Inr v) = Inr v"
  by (simp add: except_Exception_def try_except_def)

lemma except_Exception_Inl: "except_Exception (Inl e) = Inl (HTTPException 500 (str_exn e))"
  by (simp add: except_Exception_def try_except_def)

section \<open>Properties of the chat history\<close>

lemma newest_first_then_reversed:
  "rev (take n (rev xs)) = drop (length xs - n) xs"
  by (simp add: take_rev)

lemma get_chat_history_eq:
  "get_chat_history s uid = Inr (drop (length (own_turns s uid) - 50) (own_turns s uid))"
  by (simp add: get_chat_history_def get_chat_history_body_def order_created_at_desc_def
      except_Exception_Inr newest_first_then_reversed own_turns_def)

lemma set_own_turns: "set (own_turns s uid) = {t \<in> set (chat_history s). t_user_id t = uid}"
  by (simp add: own_turns_def)

lemma sorted_own_turns: "sorted (map t_created_at (drop n (own_turns s uid)))"
proof -
  have "sorted (drop n (map t_created_at (own_turns s uid)))"
    by (rule sorted_wrt_drop) (simp add: own_turns_def)
  then show ?thesis by (simp add: drop_map)
qed

text \<open>
  Claim C9. For every owner, the chat-history operation returns at most 50 chat turns,
  all of them turns of that owner, ordered oldest first. (They are the newest 50 of the
  owner's turns.)
\<close>

theorem chat_history_oldest_first:
  "\<exists>turns. get_chat_history s uid = Inr turns
     \<and> turns = drop (length (own_turns s uid) - 50) (own_turns s uid)
     \<and> length turns \<le> 50
     \<and> (\<forall>t \<in> set turns. t \<in> set (chat_history s) \<and> t_user_id t = uid)
     \<and> sorted (map t_created_at turns)"
proof (intro exI conjI)
  show "get_chat_history s uid = Inr (drop (length (own_turns s uid) - 50) (own_turns s uid))"
    by (rule get_chat_history_eq)
  show "drop (length (own_turns s uid) - 50) (own_turns s uid)
      = drop (length (own_turns s uid) - 50) (own_turns s uid)"
    by (rule refl)
  show "length (drop (length (own_turns s uid) - 50) (own_turns s uid)) \<le> 50"
    by simp
  show "\<forall>t \<in> set (drop (length (own_turns s uid) - 50) (own_turns s uid)).
          t \<in> set (chat_history s) \<and> t_user_id t = uid"
    using set_drop_subset[of "length (own_turns s uid) - 50" "own_turns s uid"] set_own_turns[of s uid]
    by blast
  show "sorted (map t_created_at (drop (length (own_turns s uid) - 50) (own_turns s uid)))"
    by (rule sorted_own_turns)
qed

lemma own_turns_store2: "own_turns store2 1 = [turn_a, turn_b]"
  by (simp add: own_turns_def store2_def turn_a_def turn_b_def turn_c_def)

theorem chat_history_oldest_first_witness:
  "get_chat_history store2 1 = Inr [turn_a, turn_b]"
  using chat_history_oldest_first[of store2 1] by (simp add: own_turns_store2)

section \<open>Properties of the deletion\<close>

lemma filter_key_le_one:
  "distinct (map f xs) \<Longrightarrow> length (filter (\<lambda>x. f x = k \<and> Q x) xs) \<le> Suc 0"
proof (induction xs)
  case Nil
  then show ?case by simp
next
  case (Cons x xs)
  show ?case
  proof (cases "f x = k")
    case True
    from Cons.prems have "f x \<notin> f ` set xs" by simp
    with True have "\<forall>y \<in> set xs. f y \<noteq> k" by blast
    then have "filter (\<lambda>x. f x = k \<and> Q x) xs = []"
      by (simp add: filter_empty_conv)
    then show ?thesis by simp
  next
    case False
    with Cons show ?thesis by simp
  qed
qed

lemma delete_document_body_eq:
  "delete_document_body s document_id uid =
     (if filter (\<lambda>row. d_id row = document_id \<and> d_user_id row = uid) (documents s) = []
      then (Inl (HTTPException 404 (str ''Document not found'')), s)
      else (Inr (), s\<lparr>documents :=
              filter (\<lambda>row. \<not> (d_id row = document_id \<and> d_user_id row = uid)) (documents s)\<rparr>))"
  by (simp add: delete_document_body_def Let_def)

lemma filter_none_hit:
  "filter P xs = [] \<Longrightarrow> filter (\<lambda>x. \<not> P x) xs = xs"
  by (induction xs) (auto split: if_splits)

lemma delete_document_documents:
  "documents (snd (delete_document s document_id uid)) =
     filter (\<lambda>row. \<not> (d_id row = document_id \<and> d_user_id row = uid)) (documents s)"
proof (cases "filter (\<lambda>row. d_id row = document_id \<and> d_user_id row = uid) (documents s) = []")
  case True
  then show ?thesis
    using filter_none_hit[OF True] by (simp add: delete_document_def delete_document_body_eq)
next
  case False
  then show ?thesis
    by (simp add: delete_document_def delete_document_body_eq)
qed

lemma delete_document_rest:
  "users (snd (delete_document s document_id uid)) = users s"
  "chat_history (snd (delete_document s document_id uid)) = chat_history s"
  "users_seq (snd (delete_document s document_id uid)) = users_seq s"
  "documents_seq (snd (delete_document s document_id uid)) = documents_seq s"
  "chat_history_seq (snd (delete_document s document_id uid)) = chat_history_seq s"
  by (simp_all add: delete_document_def delete_document_body_eq)

text \<open>
  Claim C10. Deleting a document by id on behalf of a caller leaves the users and the
  chat history as they were, and keeps, in their order, exactly the documents whose id
  is another one or whose owner is not the caller; where the ids of the documents are
  distinct, at most one document is removed.
\<close>

theorem delete_document_frame:
  "users (snd (delete_document s document_id uid)) = users s
   \<and> chat_history (snd (delete_document s document_id uid)) = chat_history s
   \<and> documents (snd (delete_document s document_id uid)) =
       filter (\<lambda>row. d_id row \<noteq> document_id \<or> d_user_id row \<noteq> uid) (documents s)
   \<and> (distinct (map d_id (documents s)) \<longrightarrow>
        length (documents s) \<le> length (documents (snd (delete_document s document_id uid))) + 1)"
proof (intro conjI impI)
  show "users (snd (delete_document s document_id uid)) = users s"
    by (rule delete_document_rest)
  show "chat_history (snd (delete_document s document_id uid)) = chat_history s"
    by (rule delete_document_rest)
  show "documents (snd (delete_document s document_id uid)) =
       filter (\<lambda>row. d_id row \<noteq> document_id \<or> d_user_id row \<noteq> uid) (documents s)"
    by (simp add: delete_document_documents)
  assume dis: "distinct (map d_id (documents s))"
  let ?hit = "\<lambda>row. d_id row = document_id \<and> d_user_id row = uid"
  have "length (filter ?hit (documents s)) \<le> Suc 0"
    using dis by (rule filter_key_le_one)
  moreover have "length (filter ?hit (documents s)) + length (filter (\<lambda>row. \<not> ?hit row) (documents s))
      = length (documents s)"
    by (rule sum_length_filter_compl)
  ultimately show "length (documents s) \<le> length (documents (snd (delete_document s document_id uid))) + 1"
    by (simp add: delete_document_documents)
qed

theorem delete_document_frame_witness:
  "distinct (map d_id (documents store1))
   \<and> delete_document store1 1 1 = (Inr (), store1\<lparr>documents := []\<rparr>)
   \<and> delete_document store1 1 2 =
       (Inl (HTTPException 500 (str_exn (HTTPException 404 (str ''Document not found'')))), store1)
   \<and> length (documents store1) \<le> length (documents (snd (delete_document store1 1 1))) + 1"
  using delete_document_frame[of store1 1 1]
  by (simp add: store1_def notes_txt_def delete_document_def delete_document_body_eq
      except_Exception_Inr except_Exception_Inl)

section \<open>Properties of the content extraction\<close>

lemma startswith_bracket: "startswith (str (CHR ''['' # s) @ t) (str ''['')"
  by (simp add: startswith_def str_def)

lemma strip_Nil: "strip [] = []"
  by (simp add: strip_def lstrip_def rstrip_def)

lemma try_except_Inr: "try_except (Inr v) h = Inr v"
  by (simp add: try_except_def)

lemma try_except_Inl: "try_except (Inl e) h = h e"
  by (simp add: try_except_def)

lemma try_except_nested:
  "try_except (try_except body (\<lambda>e. Inr (f e))) h = try_except body (\<lambda>e. Inr (f e))"
  by (cases body) (simp_all add: try_except_def)

lemma read_text_total: "\<exists>out. read_text bs = Inr out"
  by (auto simp: read_text_def split: sum.splits exn.splits)

lemma try_except_read_text: "try_except (read_text bs) h = read_text bs"
  using read_text_total[of bs] by (auto simp: try_except_def)

lemma extract_dispatch:
  "filetype_guess L file_content = Inr kind \<Longrightarrow>
   extract_text_from_file L file_content filename =
     (case classify (sniffed_type kind) (file_extension_of L filename) of
        PDF \<Rightarrow> try_except (read_pdf L file_content)
                 (\<lambda>e. Inr (str ''[Error reading PDF: '' @ str_exn e @ str '']''))
      | ModernDoc \<Rightarrow> try_except (read_docx L file_content)
                 (\<lambda>e. Inr (str ''[Error reading Word document: '' @ str_exn e @ str '']''))
      | LegacyDoc \<Rightarrow> Inr (str ''[Legacy Word document (.doc) detected. Please convert to .docx format for better text extraction. Filename: ''
                    @ filename @ str '']'')
      | PlainText \<Rightarrow> read_text file_content
      | Image \<Rightarrow> try_except (read_image L file_content filename)
                 (\<lambda>e. Inr (str ''[Image content from '' @ filename @ str '' - Vision processing error: ''
                           @ str_exn e @ str '']''))
      | Unsupported \<Rightarrow> Inr (str ''[Unsupported file type: '' @ sniffed_type kind @ str '' (extension: .''
                    @ file_extension_of L filename @ str '').]''))"
  unfolding extract_text_from_file_def classify_def Let_def
  by (simp add: sniffed_type_def try_except_Inr try_except_nested try_except_read_text)

lemma extract_guess_raises:
  "filetype_guess L file_content = Inl e \<Longrightarrow>
   extract_text_from_file L file_content filename =
     Inr (str ''[Error extracting text from '' @ filename @ str '': '' @ str_exn e @ str '']'')"
  by (simp add: extract_text_from_file_def try_except_Inl)

lemma read_text_cases:
  "read_text bs = Inr out \<Longrightarrow>
     decode_utf8 bs = Inr out \<or> (decode_utf8 bs = Inl UnicodeDecodeError \<and> out = decode_latin1_ignore bs)"
  by (auto simp: read_text_def decode_utf8_def split: sum.splits exn.splits option.splits)

lemma read_image_bracket: "read_image L bs fn = Inr out \<Longrightarrow> startswith out (str ''['')"
  by (auto simp: read_image_def startswith_bracket split: sum.splits)

text \<open>
  Claim C3, as amended. For every input byte string and every file name, whatever the
  libraries do, the content extraction returns a string and raises nothing; and the
  string begins with the character \<open>[\<close> unless it is the text the branch of the file's
  kind extracted without a failure (the PDF text, the Word text, the UTF-8 decoding) or
  the Latin-1 decoding the text branch falls back to when the UTF-8 decoding fails. So
  every failure but that decoding failure is returned as text that begins with \<open>[\<close>.
\<close>

theorem extract_text_bracketed:
  "\<exists>out. extract_text_from_file L file_content filename = Inr out \<and>
     (startswith out (str ''['') \<or>
      (\<exists>kind. filetype_guess L file_content = Inr kind \<and>
         (case classify (sniffed_type kind) (file_extension_of L filename) of
            PDF \<Rightarrow> read_pdf L file_content = Inr out
          | ModernDoc \<Rightarrow> read_docx L file_content = Inr out
          | PlainText \<Rightarrow>
              decode_utf8 file_content = Inr out \<or>
              (decode_utf8 file_content = Inl UnicodeDecodeError \<and> out = decode_latin1_ignore file_content)
          | _ \<Rightarrow> False)))"
proof (cases "filetype_guess L file_content")
  case (Inl e)
  then show ?thesis
    by (simp add: extract_guess_raises startswith_bracket)
next
  case (Inr kind)
  note d = extract_dispatch[OF Inr, of filename]
  show ?thesis
  proof (cases "classify (sniffed_type kind) (file_extension_of L filename)")
    case PDF
    then show ?thesis
      using Inr by (cases "read_pdf L file_content") (simp_all add: d try_except_def startswith_bracket)
  next
    case ModernDoc
    then show ?thesis
      using Inr by (cases "read_docx L file_content") (simp_all add: d try_except_def startswith_bracket)
  next
    case LegacyDoc
    then show ?thesis by (simp add: d startswith_bracket)
  next
    case PlainText
    obtain out where t: "read_text file_content = Inr out"
      using read_text_total by blast
    show ?thesis
      using Inr PlainText read_text_cases[OF t] by (simp add: d t)
  next
    case Image
    then show ?thesis
      using read_image_bracket[of L file_content filename]
      by (cases "read_image L file_content filename") (simp_all add: d try_except_def startswith_bracket)
  next
    case Unsupported
    then show ?thesis by (simp add: d startswith_bracket)
  qed
qed

lemma file_extension_a_txt: "file_extension_of L (str ''a.txt'') = str ''txt''"
  by (simp add: file_extension_of_def str_def lower_def lower_cp_def)

lemma classify_txt: "classify (sniffed_type None) (str ''txt'') = PlainText"
  by (simp add: classify_def sniffed_type_def text_extensions_def startswith_def str_def)

lemma decode_utf8_ff: "decode_utf8 [255] = Inl UnicodeDecodeError"
  by (simp add: decode_utf8_def utf8_first_def)

text \<open>
  The claim as stated fails on the file \<open>a.txt\<close> whose content is the single byte 0xFF:
  the UTF-8 decoding fails, and the function returns the Latin-1 decoding, the one
  character U+00FF, which does not begin with \<open>[\<close>.
\<close>

theorem extract_text_latin1_fallback:
  "decode_utf8 [255] = Inl UnicodeDecodeError
   \<and> extract_text_from_file plain_libs [255] (str ''a.txt'') = Inr [255]
   \<and> \<not> startswith [255] (str ''['')"
proof (intro conjI)
  show "decode_utf8 [255] = Inl UnicodeDecodeError" by (rule decode_utf8_ff)
  have g: "filetype_guess plain_libs [255] = Inr None" by (simp add: plain_libs_def)
  show "extract_text_from_file plain_libs [255] (str ''a.txt'') = Inr [255]"
    by (simp add: extract_dispatch[OF g] file_extension_a_txt classify_txt read_text_def
        decode_utf8_ff decode_latin1_ignore_def)
  show "\<not> startswith [255] (str ''['')"
    by (simp add: startswith_def str_def)
qed

lemma pdf_loop_blocks:
  "pdf_loop i (map Inr texts) parts =
     Inr (parts @ map (\<lambda>(j, t). page_block (j + 1) t) (filter (\<lambda>(j, t). has_text t) (enumerate i texts)))"
  by (induction texts arbitrary: i parts) (auto simp: page_block_def has_text_def strip_Nil)

text \<open>
  Claim C8. The PDF extraction emits one block \<open>--- Page N ---\<close> for each page that has
  extractable text, numbered by the page's position in the document (from 1), and skips
  the pages without text; the output is the blocks in order, stripped of the white space
  around the whole. The three-page document with text on pages 1 and 3 only is the
  instance below: two blocks, numbered 1 and 3.
\<close>

theorem pdf_page_blocks:
  assumes "filetype_guess L file_content = Inr kind"
    and "sniffed_type kind = str ''application/pdf'' \<or> file_extension_of L filename = str ''pdf''"
    and "PdfReader_pages L file_content = Inr (map Inr texts)"
  shows "extract_text_from_file L file_content filename =
     Inr (strip (concat (map (\<lambda>(i, t). page_block (i + 1) t)
                          (filter (\<lambda>(i, t). has_text t) (enumerate 0 texts)))))"
proof -
  have "classify (sniffed_type kind) (file_extension_of L filename) = PDF"
    using assms(2) by (auto simp: classify_def)
  moreover have "read_pdf L file_content =
     Inr (strip (concat (map (\<lambda>(i, t). page_block (i + 1) t)
                          (filter (\<lambda>(i, t). has_text t) (enumerate 0 texts)))))"
    by (simp add: read_pdf_def assms(3) pdf_loop_blocks)
  ultimately show ?thesis
    by (simp add: extract_dispatch[OF assms(1)] try_except_Inr)
qed

lemma file_extension_scan_pdf: "file_extension_of L (str ''scan.pdf'') = str ''pdf''"
  by (simp add: file_extension_of_def str_def lower_def lower_cp_def)

lemma three_pages_blocks:
  "strip (concat (map (\<lambda>(i, t). page_block (i + 1) t)
            (filter (\<lambda>(i, t). has_text t) (enumerate 0 [str ''Alpha'', str ''  '', str ''Gamma'']))))
   = str ''--- Page 1 ---'' @ NL @ str ''Alpha'' @ NL @ NL @ str ''--- Page 3 ---'' @ NL @ str ''Gamma''"
  by (simp add: has_text_def strip_def lstrip_def rstrip_def isspace_def page_block_def NL_def
      str_def str_nat.simps)

theorem pdf_page_blocks_witness:
  "extract_text_from_file three_pages [37, 80, 68, 70] (str ''scan.pdf'') =
     Inr (str ''--- Page 1 ---'' @ NL @ str ''Alpha'' @ NL @ NL @ str ''--- Page 3 ---'' @ NL @ str ''Gamma'')"
proof -
  have g: "filetype_guess three_pages [37, 80, 68, 70] = Inr (Some (str ''application/pdf''))"
    by (simp add: three_pages_def plain_libs_def)
  have e: "sniffed_type (Some (str ''application/pdf'')) = str ''application/pdf''
      \<or> file_extension_of three_pages (str ''scan.pdf'') = str ''pdf''"
    by (simp add: file_extension_scan_pdf)
  have p: "PdfReader_pages three_pages [37, 80, 68, 70]
      = Inr (map Inr [str ''Alpha'', str ''  '', str ''Gamma''])"
    by (simp add: three_pages_def plain_libs_def)
  show ?thesis
    using pdf_page_blocks[OF g e p] by (simp only: three_pages_blocks)
qed

section \<open>Properties of the token verification\<close>

lemma verify_absent:
  "get_current_user_id key now None = Inl (HTTPException 401 (str ''Token is missing''))"
  by (simp add: get_current_user_id_def)

lemma verify_malformed:
  "get_current_user_id key now (Some (Malformed s)) = Inl credentials_exception"
  by (simp add: get_current_user_id_def)

lemma verify_wrong_key:
  "k \<noteq> key \<Longrightarrow> get_current_user_id key now (Some (Signed k pl)) = Inl credentials_exception"
  by (simp add: get_current_user_id_def)

lemma verify_expired:
  "p_exp pl = Some e \<Longrightarrow> e \<le> now \<Longrightarrow>
   get_current_user_id key now (Some (Signed key pl)) = Inl (HTTPException 401 (str ''Token has expired''))"
  by (simp add: get_current_user_id_def)

lemma verify_no_user_id:
  "p_exp pl = Some e \<Longrightarrow> now < e \<Longrightarrow> p_user_id pl = None \<Longrightarrow>
   get_current_user_id key now (Some (Signed key pl)) = Inl credentials_exception"
  by (simp add: get_current_user_id_def credentials_exception_def)

lemma verify_valid:
  "p_exp pl = Some e \<Longrightarrow> now < e \<Longrightarrow> p_user_id pl = Some uid \<Longrightarrow>
   get_current_user_id key now (Some (Signed key pl)) = Inr uid"
  by (simp add: get_current_user_id_def)

lemma verify_failure_categories:
  "get_current_user_id key now token = Inl e \<Longrightarrow>
     (token = None \<and> auth_failure_of e = Some Unauthenticated)
   \<or> (\<exists>pl x. token = Some (Signed key pl) \<and> p_exp pl = Some x \<and> x \<le> now \<and> auth_failure_of e = Some TokenExpired)
   \<or> (token \<noteq> None \<and> auth_failure_of e = Some InvalidToken)"
  by (cases token; cases "the token")
     (auto simp: get_current_user_id_def auth_failure_of_def credentials_exception_def str_def
           split: if_splits option.splits)

lemma token_ttl_negative_expired:
  "delta < 0 \<Longrightarrow>
   get_current_user_id key now (Some (create_access_token key now (Some uid) (Some delta)))
     = Inl (HTTPException 401 (str ''Token has expired''))"
  by (simp add: create_access_token_def jwt_encode_def get_current_user_id_def)

text \<open>
  Claim C5, at the input where the code departs from it. A token issued with a time to
  live of zero is the token issued with no time to live at all: it carries the default
  expiry of 15 minutes, and its verification at the time of issue succeeds with the
  user's id instead of failing as expired.
\<close>

theorem token_ttl_zero_accepted:
  "get_current_user_id key now (Some (create_access_token key now (Some uid) (Some 0))) = Inr uid
   \<and> create_access_token key now (Some uid) (Some 0) = create_access_token key now (Some uid) None"
  by (simp add: create_access_token_def jwt_encode_def get_current_user_id_def)

section \<open>Properties of the handlers' validation checks\<close>

lemma except_Exception_status:
  "status_of n (except_Exception r) = (case r of Inl e \<Rightarrow> 500 | Inr v \<Rightarrow> n)"
  by (cases r) (simp_all add: status_of_def except_Exception_Inl except_Exception_Inr)

lemma register_duplicate_email:
  "row \<in> set (users s) \<Longrightarrow> u_email row = uc_email u \<Longrightarrow>
   register key now s u =
     (Inl (HTTPException 500 (str_exn (HTTPException 400 (str ''Email already registered'')))), s)"
  by (auto simp: register_def register_body_def except_Exception_Inl filter_empty_conv)

lemma login_unknown_email:
  "\<forall>row \<in> set (users s). u_email row \<noteq> ul_email f \<Longrightarrow>
   login key now s f = Inl (HTTPException 500 (str_exn (HTTPException 401 (str ''Invalid credentials''))))"
proof -
  assume "\<forall>row \<in> set (users s). u_email row \<noteq> ul_email f"
  then have "filter (\<lambda>row. u_email row = ul_email f) (users s) = []"
    by (simp add: filter_empty_conv)
  then show ?thesis
    by (simp add: login_def login_body_def except_Exception_Inl)
qed

lemma login_wrong_password:
  "filter (\<lambda>row. u_email row = ul_email f) (users s) = row # rest \<Longrightarrow>
   verify_password (ul_password f) (u_password_hash row) = Inr False \<Longrightarrow>
   login key now s f = Inl (HTTPException 500 (str_exn (HTTPException 401 (str ''Invalid credentials''))))"
  by (simp add: login_def login_body_def except_Exception_Inl)

lemma get_document_not_found:
  "\<forall>row \<in> set (documents s). d_id row = document_id \<longrightarrow> d_user_id row \<noteq> uid \<Longrightarrow>
   get_document_content s document_id uid =
     Inl (HTTPException 500 (str_exn (HTTPException 404 (str ''Document not found''))))"
proof -
  assume "\<forall>row \<in> set (documents s). d_id row = document_id \<longrightarrow> d_user_id row \<noteq> uid"
  then have "filter (\<lambda>row. d_id row = document_id \<and> d_user_id row = uid) (documents s) = []"
    by (simp add: filter_empty_conv)
  then show ?thesis
    by (simp add: get_document_content_def get_document_content_body_def except_Exception_Inl)
qed

lemma upload_invalid_filename:
  "file_filename file = None \<or> file_filename file = Some [] \<or>
   (\<exists>name. file_filename file = Some name \<and> (47 \<in> set name \<or> 92 \<in> set name)) \<Longrightarrow>
   upload_file L now s file uid =
     (Inl (HTTPException 500 (str_exn (HTTPException 400 (str ''Invalid filename'')))), s)"
  by (auto simp: upload_file_def upload_file_body_def except_Exception_Inl split: option.splits)

lemma upload_oversized:
  "file_filename file = Some name \<Longrightarrow> name \<noteq> [] \<Longrightarrow> 47 \<notin> set name \<Longrightarrow> 92 \<notin> set name \<Longrightarrow>
   length (file_bytes file) > MAX_FILE_SIZE \<Longrightarrow>
   upload_file L now s file uid =
     (Inl (HTTPException 500 (str_exn (HTTPException 400 (str ''File size exceeds 10MB limit.'')))), s)"
  by (simp add: upload_file_def upload_file_body_def except_Exception_Inl Let_def)

lemma upload_empty:
  "file_filename file = Some name \<Longrightarrow> name \<noteq> [] \<Longrightarrow> 47 \<notin> set name \<Longrightarrow> 92 \<notin> set name \<Longrightarrow>
   file_bytes file = [] \<Longrightarrow>
   upload_file L now s file uid =
     (Inl (HTTPException 500 (str_exn (HTTPException 400 (str ''Empty file uploaded.'')))), s)"
  by (simp add: upload_file_def upload_file_body_def except_Exception_Inl Let_def MAX_FILE_SIZE_def)

lemma guest_oversized:
  "length (file_bytes file) > MAX_FILE_SIZE \<Longrightarrow>
   guest_extract_text L file =
     Inl (HTTPException 500 (str_exn (HTTPException 400 (str ''File size exceeds 10MB limit.''))))"
  by (simp add: guest_extract_text_def guest_extract_text_body_def except_Exception_Inl Let_def)

lemma Depends_user_rejects:
  "get_current_user_id key now token = Inl e \<Longrightarrow> Depends_user key now token handler = Inl e"
  by (simp add: Depends_user_def)

lemma get_current_user_id_status:
  "get_current_user_id key now token = Inl e \<Longrightarrow> status_of_exn e = 401"
  by (cases token; cases "the token")
     (auto simp: get_current_user_id_def credentials_exception_def split: if_splits option.splits)

text \<open>
  Claim C1, at the inputs where the code departs from it. A registration with an email
  that is registered already, a login with an unknown email, a read of a document that
  is not the caller's and an upload without a file name are all answered with the
  status 500 of the catch-all clause, not with 400, 401 or 404; only a failure of the
  token verification, which is raised outside the handlers, is answered with its own
  status 401.
\<close>

theorem validation_failures_status:
  "(\<forall>row \<in> set (users s). u_email row = uc_email u \<longrightarrow>
       status_of 201 (fst (register key now s u)) = 500)
   \<and> ((\<forall>row \<in> set (users s). u_email row \<noteq> ul_email f) \<longrightarrow>
       status_of 200 (login key now s f) = 500)
   \<and> ((\<forall>row \<in> set (documents s). d_id row = document_id \<longrightarrow> d_user_id row \<noteq> uid) \<longrightarrow>
       status_of 200 (get_document_content s document_id uid) = 500)
   \<and> (file_filename file = None \<longrightarrow>
       status_of 201 (fst (upload_file L now s file uid)) = 500)
   \<and> (\<forall>e. get_current_user_id key now token = Inl e \<longrightarrow>
       status_of 200 (Depends_user key now token handler) = 401)"
proof (intro conjI ballI allI impI)
  fix row assume "row \<in> set (users s)" "u_email row = uc_email u"
  then show "status_of 201 (fst (register key now s u)) = 500"
    by (simp add: register_duplicate_email status_of_def)
next
  assume "\<forall>row \<in> set (users s). u_email row \<noteq> ul_email f"
  then show "status_of 200 (login key now s f) = 500"
    by (simp add: login_unknown_email status_of_def)
next
  assume "\<forall>row \<in> set (documents s). d_id row = document_id \<longrightarrow> d_user_id row \<noteq> uid"
  then show "status_of 200 (get_document_content s document_id uid) = 500"
    by (simp add: get_document_not_found status_of_def)
next
  assume "file_filename file = None"
  then show "status_of 201 (fst (upload_file L now s file uid)) = 500"
    by (simp add: upload_invalid_filename status_of_def)
next
  fix e assume "get_current_user_id key now token = Inl e"
  then show "status_of 200 (Depends_user key now token handler) = 401"
    by (simp add: Depends_user_rejects get_current_user_id_status status_of_def)
qed

theorem validation_failures_status_witness:
  "alice \<in> set (users store1)
   \<and> status_of 201 (fst (register (str ''k'') 400 store1
        \<lparr>uc_email = str ''alice@example.com'', uc_password = str ''pw'', uc_full_name = str ''A''\<rparr>)) = 500
   \<and> status_of 200 (login (str ''k'') 400 store1
        \<lparr>ul_email = str ''carol@example.com'', ul_password = str ''pw''\<rparr>) = 500
   \<and> status_of 200 (get_document_content store1 1 2) = 500
   \<and> status_of 201 (fst (upload_file plain_libs 400 store1
        \<lparr>file_filename = None, file_bytes = [65], file_content_type = None\<rparr> 2)) = 500
   \<and> status_of 200 (Depends_user (str ''k'') 400 None (get_document_content store1 1)) = 401"
proof -
  let ?u = "\<lparr>uc_email = str ''alice@example.com'', uc_password = str ''pw'', uc_full_name = str ''A''\<rparr>"
  let ?f = "\<lparr>ul_email = str ''carol@example.com'', ul_password = str ''pw''\<rparr>"
  let ?file = "\<lparr>file_filename = None, file_bytes = [65], file_content_type = None\<rparr>"
  note t = validation_failures_status[of store1 ?u "str ''k''" 400 ?f 1 2 ?file plain_libs None
      "get_document_content store1 1"]
  have h1: "alice \<in> set (users store1)"
    by (simp add: store1_def)
  have h2: "u_email alice = uc_email ?u"
    by (simp add: alice_def)
  have h3: "\<forall>row \<in> set (users store1). u_email row \<noteq> ul_email ?f"
    by (simp add: store1_def alice_def bob_def str_def)
  have h4: "\<forall>row \<in> set (documents store1). d_id row = 1 \<longrightarrow> d_user_id row \<noteq> 2"
    by (simp add: store1_def notes_txt_def)
  have h5: "file_filename ?file = None"
    by simp
  have h6: "get_current_user_id (str ''k'') 400 None = Inl (HTTPException 401 (str ''Token is missing''))"
    by (simp add: get_current_user_id_def)
  from t h1 h2 have c1: "status_of 201 (fst (register (str ''k'') 400 store1 ?u)) = 500"
    by blast
  from t h3 have c2: "status_of 200 (login (str ''k'') 400 store1 ?f) = 500"
    by blast
  from t h4 have c3: "status_of 200 (get_document_content store1 1 2) = 500"
    by blast
  from t h5 have c4: "status_of 201 (fst (upload_file plain_libs 400 store1 ?file 2)) = 500"
    by blast
  from t h6 have c5: "status_of 200 (Depends_user (str ''k'') 400 None (get_document_content store1 1)) = 401"
    by blast
  show ?thesis
    using h1 c1 c2 c3 c4 c5 by blast
qed

lemma try_except_total: "\<exists>v. try_except body (\<lambda>e. Inr (f e)) = Inr v"
  by (cases body) (simp_all add: try_except_def)

lemma extract_text_total: "\<exists>out. extract_text_from_file L file_content filename = Inr out"
proof (cases "filetype_guess L file_content")
  case (Inl e)
  then show ?thesis by (simp add: extract_guess_raises)
next
  case (Inr kind)
  show ?thesis
    by (cases "classify (sniffed_type kind) (file_extension_of L filename)")
       (simp_all add: extract_dispatch[OF Inr] try_except_total read_text_total)
qed

text \<open>
  Claim C4, at the input where the code departs from it. The guest extraction has no check
  for an empty file: on empty bytes it calls the extraction and answers with its
  result.
\<close>

theorem guest_extract_accepts_empty:
  "file_bytes file = [] \<Longrightarrow>
   \<exists>r. guest_extract_text L file = Inr r \<and> ge_file_size r = 0
       \<and> extract_text_from_file L [] (ge_filename r) = Inr (ge_extracted_text r)"
proof -
  assume empty: "file_bytes file = []"
  define filename where "filename = (case file_filename file of
                        None \<Rightarrow> str ''uploaded_file''
                      | Some name \<Rightarrow> if name = [] then str ''uploaded_file'' else name)"
  obtain out where out: "extract_text_from_file L [] filename = Inr out"
    using extract_text_total by blast
  have "guest_extract_text L file =
      Inr \<lparr>ge_extracted_text = out, ge_filename = filename, ge_file_size = 0,
            ge_extracted_length = length out\<rparr>"
    using out empty
    by (simp add: guest_extract_text_def guest_extract_text_body_def except_Exception_Inr
        MAX_FILE_SIZE_def filename_def Let_def)
  then show ?thesis using out by simp
qed

lemma read_text_empty: "read_text [] = Inr []"
  by (simp add: read_text_def decode_utf8_def)

theorem guest_extract_accepts_empty_witness:
  "guest_extract_text plain_libs \<lparr>file_filename = Some (str ''a.txt''), file_bytes = [], file_content_type = None\<rparr>
     = Inr \<lparr>ge_extracted_text = [], ge_filename = str ''a.txt'', ge_file_size = 0, ge_extracted_length = 0\<rparr>"
proof -
  have g: "filetype_guess plain_libs [] = Inr None" by (simp add: plain_libs_def)
  have x: "extract_text_from_file plain_libs [] (str ''a.txt'') = Inr []"
    by (simp add: extract_dispatch[OF g] file_extension_a_txt classify_txt read_text_empty)
  have n: "str ''a.txt'' \<noteq> []" by (simp add: str_def)
  show ?thesis
    using guest_extract_accepts_empty[of "\<lparr>file_filename = Some (str ''a.txt''), file_bytes = [], file_content_type = None\<rparr>" plain_libs]
    by (auto simp: x n guest_extract_text_def guest_extract_text_body_def except_Exception_Inr MAX_FILE_SIZE_def)
qed

section \<open>Properties of the chat\<close>

lemma assemble_context_sources:
  "snd (assemble_context (Some docs)) = map provenance docs"
  by (cases docs) (simp_all add: assemble_context_def context_loop_eq del: context_loop.simps)









lemma selected_own_foreign:
  "req_use_all_documents req \<noteq> Some True \<Longrightarrow> req_selected_documents req = Some ids \<Longrightarrow>
   \<forall>d \<in> set (documents s). d_id d \<in> set ids \<longrightarrow> d_user_id d \<noteq> uid \<Longrightarrow>
   selected_own s req uid = []"
  by (auto simp: selected_own_def filter_empty_conv)








section \<open>Properties of the password hashing\<close>

text \<open>
  A password that can be hashed (its UTF-8 encoding exists) verifies against its own
  hash, and a password verifies against the hash of another one exactly when the two
  hashes are equal.
\<close>

lemma verify_password_own_hash:
  "hash_password p = Inr h \<Longrightarrow> verify_password p h = Inr True"
  by (simp add: verify_password_def)

lemma verify_password_other_hash:
  "hash_password p1 = Inr h1 \<Longrightarrow> hash_password p2 = Inr h2 \<Longrightarrow>
   verify_password p2 h1 = Inr (h2 = h1)"
  by (simp add: verify_password_def)

text \<open>
  A digest has 256 bits and the passwords \<open>a\<close>, \<open>aa\<close>, \<open>aaa\<close>, ... are infinitely
  many, so two different passwords with the same hash exist; the argument names no such
  pair.
\<close>

lemma utf8_encode_ascii: "utf8_encode (replicate n 97) = Some (replicate n 97)"
  by (induction n) (simp_all add: utf8_encode_cp_def)

lemma hash_password_ascii:
  "hash_password (replicate n 97) = Inr (hexdigest (sha256 (replicate n 97)))"
  by (simp add: hash_password_def encode_utf8_def utf8_encode_ascii)

lemma sha256_collision: "\<exists>n m. n \<noteq> m \<and> sha256 (replicate n 97) = sha256 (replicate m 97)"
proof (rule ccontr)
  assume "\<not> ?thesis"
  then have "inj (\<lambda>n::nat. sha256 (replicate n 97))"
    by (auto simp: inj_on_def)
  moreover have "finite (range (\<lambda>n::nat. sha256 (replicate n 97)))"
    by simp
  ultimately have "finite (UNIV :: nat set)"
    by (rule finite_imageD[rotated])
  then show False by simp
qed

lemma hash_collision_exists:
  "\<exists>p1 p2 h. p1 \<noteq> p2 \<and> hash_password p1 = Inr h \<and> verify_password p2 h = Inr True"
proof -
  obtain n m where nm: "n \<noteq> m" "sha256 (replicate n 97) = sha256 (replicate m 97)"
    using sha256_collision by blast
  let ?p1 = "replicate n 97 :: pystr" and ?p2 = "replicate m 97 :: pystr"
  have "?p1 \<noteq> ?p2"
    using nm(1) by (metis length_replicate)
  moreover have "hash_password ?p1 = Inr (hexdigest (sha256 (replicate n 97)))"
    by (rule hash_password_ascii)
  moreover have "verify_password ?p2 (hexdigest (sha256 (replicate n 97))) = Inr True"
    by (simp add: verify_password_def hash_password_ascii nm(2))
  ultimately show ?thesis by blast
qed

end
